theory Spec2Isabelle
  imports Main
begin

section \<open>Values, sockets and the socket.io server object\<close>

text \<open>
  The repository holds two socket.io servers: \<^verbatim>\<open>e2esimple/server.js\<close> and the tutorial
  server of the README (step 1), one client (\<^verbatim>\<open>e2esimple/client.js\<close>) and the
  deployment file \<^verbatim>\<open>stack/docker-compose.yml\<close>.

  JavaScript values that travel as event arguments: the sources only ever send strings,
  but a client may send any value, so objects and numbers are kept.
\<close>

datatype jsval = JUndefined | JStr string | JNum int | JObj "(string \<times> jsval) list"

text \<open>Property access \<^verbatim>\<open>v.f\<close>: only an object with the key has the field.\<close>

fun js_get :: "jsval \<Rightarrow> string \<Rightarrow> jsval option" where
  "js_get (JObj kvs) f = map_of kvs f"
| "js_get _ f = None"

text \<open>
  The \<^verbatim>\<open>client\<close> argument of the connection handler. The handlers read its
  \<^verbatim>\<open>client.id\<close> and nothing else of it.
\<close>

record socket =
  socket_id :: string

text \<open>A packet is an event name with its argument, as in \<^verbatim>\<open>emit(name, arg)\<close>.\<close>

type_synonym packet = "string \<times> jsval"

text \<open>What a handler body of the sources does: \<^verbatim>\<open>console.log(...)\<close> and \<^verbatim>\<open>io.emit(name, arg)\<close>.\<close>

datatype effect = ConsoleLog "jsval list" | IoEmit string jsval

text \<open>
  The server object \<^verbatim>\<open>io\<close> with what it can be observed to do: the connected sockets
  (an object keyed by id), the listeners registered with \<^verbatim>\<open>client.on\<close>, the lines written
  to the console, the packets sent to each socket, and the packets handed to the adapter
  for broadcast.
\<close>

record server =
  connected :: "socket list"
  listeners :: "string \<times> string \<Rightarrow> (jsval \<Rightarrow> effect list) option"
  console :: "jsval list list"
  outbox :: "string \<Rightarrow> packet list"
  broadcasts :: "packet list"

definition server_start :: server where
  "server_start = \<lparr>connected = [], listeners = (\<lambda>k. None), console = [],
     outbox = (\<lambda>sid. []), broadcasts = []\<rparr>"

definition send_packet :: "string \<Rightarrow> packet \<Rightarrow> server \<Rightarrow> server" where
  "send_packet sid p s = s\<lparr>outbox := (outbox s)(sid := outbox s sid @ [p])\<rparr>"

text \<open>The adapter's broadcast without rooms: one send for each connected socket.\<close>

definition adapter_broadcast :: "packet \<Rightarrow> server \<Rightarrow> server" where
  "adapter_broadcast p s = fold (\<lambda>c. send_packet (socket_id c) p) (connected s) s"

definition io_emit :: "string \<Rightarrow> jsval \<Rightarrow> server \<Rightarrow> server" where
  "io_emit ev arg s = adapter_broadcast (ev, arg) (s\<lparr>broadcasts := broadcasts s @ [(ev, arg)]\<rparr>)"

definition console_log :: "jsval list \<Rightarrow> server \<Rightarrow> server" where
  "console_log args s = s\<lparr>console := console s @ [args]\<rparr>"

fun perform :: "effect \<Rightarrow> server \<Rightarrow> server" where
  "perform (ConsoleLog args) s = console_log args s"
| "perform (IoEmit ev arg) s = io_emit ev arg s"

definition client_on :: "socket \<Rightarrow> string \<Rightarrow> (jsval \<Rightarrow> effect list) \<Rightarrow> server \<Rightarrow> server" where
  "client_on client ev h s = s\<lparr>listeners := (listeners s)((socket_id client, ev) \<mapsto> h)\<rparr>"

text \<open>
  What socket.io does around the handlers. A new socket is stored under its id before the
  \<^verbatim>\<open>connection\<close> event fires; a packet from a socket runs the listener registered for its
  event name, if any; a disconnect removes the socket with its listeners. A packet that a
  peer process has published reaches the adapter, which sends it to each connected socket
  and publishes nothing.
\<close>

definition add_socket :: "socket \<Rightarrow> server \<Rightarrow> server" where
  "add_socket client s =
     s\<lparr>connected := filter (\<lambda>x. socket_id x \<noteq> socket_id client) (connected s) @ [client]\<rparr>"

definition on_packet :: "string \<Rightarrow> string \<Rightarrow> jsval \<Rightarrow> server \<Rightarrow> server" where
  "on_packet sid ev arg s =
     (case listeners s (sid, ev) of None \<Rightarrow> s | Some h \<Rightarrow> fold perform (h arg) s)"

definition on_disconnect :: "string \<Rightarrow> server \<Rightarrow> server" where
  "on_disconnect sid s =
     s\<lparr>connected := filter (\<lambda>x. socket_id x \<noteq> sid) (connected s),
       listeners := (\<lambda>k. if fst k = sid then None else listeners s k)\<rparr>"

definition adapter_onmessage :: "packet \<Rightarrow> server \<Rightarrow> server" where
  "adapter_onmessage p s = adapter_broadcast p s"

text \<open>
  What can happen to a process: a client connects, a client sends a packet, a client
  disconnects, the timer fires, a peer publishes a packet.
\<close>

datatype event =
  Connect socket | Packet string string jsval | Disconnect string | Tick | Peer string jsval



section \<open>e2esimple/server.js\<close>

text \<open>
  \<^verbatim>\<open>
  io.on('connection', client => {
    console.log('New incoming Connection from', client.id);
    client.on('testMsg', function(message) {
      console.log('Message from the client:',client.id,'->',message);
    })
    io.emit("broadcast", 'A broadcast message');
  });
  \<close>
\<close>

definition testMsg_listener :: "socket \<Rightarrow> jsval \<Rightarrow> effect list" where
  "testMsg_listener client message =
     [ConsoleLog [JStr ''Message from the client:'', JStr (socket_id client), JStr ''->'', message]]"

definition connection_handler :: "socket \<Rightarrow> server \<Rightarrow> server" where
  "connection_handler client s =
     perform (IoEmit ''broadcast'' (JStr ''A broadcast message''))
       (client_on client ''testMsg'' (testMsg_listener client)
         (perform (ConsoleLog [JStr ''New incoming Connection from'', JStr (socket_id client)]) s))"

text \<open>
  The process has no timer, so a tick finds nothing to run, and no adapter but the one in
  memory, so nothing arrives from a peer.
\<close>

fun e2e_step :: "event \<Rightarrow> server \<Rightarrow> server" where
  "e2e_step (Connect client) s = connection_handler client (add_socket client s)"
| "e2e_step (Packet sid ev arg) s = on_packet sid ev arg s"
| "e2e_step (Disconnect sid) s = on_disconnect sid s"
| "e2e_step Tick s = s"
| "e2e_step (Peer ev arg) s = s"

definition e2e_run :: "event list \<Rightarrow> server" where
  "e2e_run es = fold e2e_step es server_start"

text \<open>\<^verbatim>\<open>e2esimple/client.js\<close>: on connect the client sends one packet.\<close>

definition client_on_connect :: "string \<Rightarrow> event" where
  "client_on_connect sid = Packet sid ''testMsg'' (JStr ''a message'')"

section \<open>The tutorial server (README, step 1)\<close>

text \<open>
  \<^verbatim>\<open>
  const privateIp = (() => {
    return Object.values(ifaces).flat().find(val => {
      return (val.family == 'IPv4' && val.internal == false);
    }).address;
  })();
  \<close>
  \<^verbatim>\<open>find\<close> gives \<^verbatim>\<open>undefined\<close> when no interface matches, and reading \<^verbatim>\<open>.address\<close> of it
  throws a TypeError while the module loads.
\<close>

record iface =
  address :: string
  family :: string
  internal :: bool

datatype startup_error = TypeError

definition privateIp :: "(string \<times> iface list) list \<Rightarrow> startup_error + string" where
  "privateIp ifaces =
     (case find (\<lambda>val. family val = ''IPv4'' \<and> internal val = False) (concat (map snd ifaces)) of
        None \<Rightarrow> Inl TypeError
      | Some val \<Rightarrow> Inr (address val))"

text \<open>
  \<^verbatim>\<open>
  const randomOffset = Math.floor(Math.random() * 10);
  const intervalOffset = (30+randomOffset) * Math.pow(10,3);
  \<close>
  The draw of \<^verbatim>\<open>Math.random()\<close> is an argument. It is a double at least 0 and below 1:
  the number \<open>mant / 2 ^ expo\<close> with \<open>mant < 2 ^ 53\<close>, \<open>expo \<le> 1074\<close> and
  \<open>mant < 2 ^ expo\<close>.
\<close>

record draw =
  mant :: nat
  expo :: nat

text \<open>The number of binary digits of a number.\<close>

fun bits :: "nat \<Rightarrow> nat" where
  "bits n = (if n = 0 then 0 else Suc (bits (n div 2)))"

declare bits.simps [simp del]

text \<open>
  Rounding away the last \<open>s\<close> binary digits, to the nearest and to the even one of two
  that are as near.
\<close>

definition round_even :: "nat \<Rightarrow> nat \<Rightarrow> nat" where
  "round_even s n =
     (let q = n div 2 ^ s; r = n mod 2 ^ s
      in (if 2 ^ s < 2 * r \<or> (2 * r = 2 ^ s \<and> odd q) then q + 1 else q) * 2 ^ s)"

text \<open>
  The product of doubles \<^verbatim>\<open>Math.random() * 10\<close>, in units of \<open>1 / 2 ^ expo\<close>: the exact
  product \<open>10 * mant\<close> rounded to 53 binary digits. \<^verbatim>\<open>Math.floor\<close> of it, the sum with 30
  and the product with \<^verbatim>\<open>Math.pow(10,3)\<close>, which is 1000, are exact.
\<close>

definition times10 :: "draw \<Rightarrow> nat" where
  "times10 d = round_even (bits (10 * mant d) - 53) (10 * mant d)"

definition randomOffset :: "draw \<Rightarrow> int" where
  "randomOffset d = int (times10 d div 2 ^ expo d)"

definition intervalOffset :: "draw \<Rightarrow> int" where
  "intervalOffset d = (30 + randomOffset d) * 10 ^ 3"

definition socketPort :: int where
  "socketPort = 5000"

text \<open>
  \<^verbatim>\<open>
  const redisHost = process.env.REDIS_HOST || 'localhost';
  io.adapter(redisAdapter({ host: redisHost, port: 6379 }));
  \<close>
  \<^verbatim>\<open>process.env\<close> maps names to strings; \<^verbatim>\<open>||\<close> takes its right side when the left is
  undefined or the empty string.
\<close>

definition redisHost :: "(string \<rightharpoonup> string) \<Rightarrow> string" where
  "redisHost env =
     (case env ''REDIS_HOST'' of
        None \<Rightarrow> ''localhost''
      | Some v \<Rightarrow> if v = [] then ''localhost'' else v)"

record redis_options =
  host :: string
  port :: int

definition redisAdapter_options :: "(string \<rightharpoonup> string) \<Rightarrow> redis_options" where
  "redisAdapter_options env = \<lparr>host = redisHost env, port = 6379\<rparr>"

text \<open>
  \<^verbatim>\<open>
  io.on('connection', client => {
    console.log('New incoming Connection from', client.id);
    client.on('test000', function(message) {
      console.log('Message from the client:',client.id,'->',message);
    })
  });
  setInterval(() => {
    let log0 = `I am the host: ${privateIp}. I am healty.`;
    console.log(log0);
    io.emit("okok", log0);
  }, intervalOffset);
  socketServer.listen(socketPort);
  \<close>
\<close>

definition test000_listener :: "socket \<Rightarrow> jsval \<Rightarrow> effect list" where
  "test000_listener client message =
     [ConsoleLog [JStr ''Message from the client:'', JStr (socket_id client), JStr ''->'', message]]"

definition tutorial_connection_handler :: "socket \<Rightarrow> server \<Rightarrow> server" where
  "tutorial_connection_handler client s =
     client_on client ''test000'' (test000_listener client)
       (perform (ConsoleLog [JStr ''New incoming Connection from'', JStr (socket_id client)]) s)"

definition log0 :: "string \<Rightarrow> string" where
  "log0 ip = ''I am the host: '' @ ip @ ''. I am healty.''"

definition interval_callback :: "string \<Rightarrow> server \<Rightarrow> server" where
  "interval_callback ip s =
     perform (IoEmit ''okok'' (JStr (log0 ip))) (perform (ConsoleLog [JStr (log0 ip)]) s)"

text \<open>
  The running process: the server object, the constants fixed while the module loads, and
  the timer of \<^verbatim>\<open>setInterval\<close>, as the time in milliseconds since the start at which it
  fires next.
\<close>

record tutorial =
  tut_io :: server
  tut_privateIp :: string
  tut_interval :: int
  tut_due :: int
  tut_adapter :: redis_options
  tut_listen :: int

definition tutorial_boot :: "string \<Rightarrow> draw \<Rightarrow> (string \<rightharpoonup> string) \<Rightarrow> tutorial" where
  "tutorial_boot ip rnd env =
     \<lparr>tut_io = server_start, tut_privateIp = ip, tut_interval = intervalOffset rnd,
      tut_due = intervalOffset rnd, tut_adapter = redisAdapter_options env,
      tut_listen = socketPort\<rparr>"

text \<open>The module load: it stops with the TypeError when no address is found.\<close>

definition tutorial_start ::
  "(string \<times> iface list) list \<Rightarrow> draw \<Rightarrow> (string \<rightharpoonup> string) \<Rightarrow> startup_error + tutorial" where
  "tutorial_start ifaces rnd env =
     (case privateIp ifaces of
        Inl e \<Rightarrow> Inl e
      | Inr ip \<Rightarrow> Inr (tutorial_boot ip rnd env))"

text \<open>
  One process of the deployment. The redis adapter is installed, so what a peer publishes
  arrives and is sent to the sockets of this process.
\<close>

fun tutorial_step :: "event \<Rightarrow> tutorial \<Rightarrow> tutorial" where
  "tutorial_step (Connect client) p =
     p\<lparr>tut_io := tutorial_connection_handler client (add_socket client (tut_io p))\<rparr>"
| "tutorial_step (Packet sid ev arg) p = p\<lparr>tut_io := on_packet sid ev arg (tut_io p)\<rparr>"
| "tutorial_step (Disconnect sid) p = p\<lparr>tut_io := on_disconnect sid (tut_io p)\<rparr>"
| "tutorial_step Tick p =
     p\<lparr>tut_io := interval_callback (tut_privateIp p) (tut_io p),
       tut_due := tut_due p + tut_interval p\<rparr>"
| "tutorial_step (Peer ev arg) p = p\<lparr>tut_io := adapter_onmessage (ev, arg) (tut_io p)\<rparr>"

definition tutorial_run :: "event list \<Rightarrow> tutorial \<Rightarrow> tutorial" where
  "tutorial_run es p = fold tutorial_step es p"

section \<open>stack/docker-compose.yml\<close>

text \<open>The \<^verbatim>\<open>environment\<close> and \<^verbatim>\<open>labels\<close> entries of the service \<^verbatim>\<open>socket-server\<close>, split at \<^verbatim>\<open>=\<close>.\<close>

definition socket_server_environment :: "(string \<times> string) list" where
  "socket_server_environment = [(''REDIS_HOST'', ''redis'')]"

definition socket_server_labels :: "(string \<times> string) list" where
  "socket_server_labels =
    [(''traefik.enable'', ''true''),
     (''traefik.http.routers.socket-router.rule'', ''PathPrefix(`/wsk`)''),
     (''traefik.http.services.service01.loadbalancer.server.port'', ''5000''),
     (''traefik.http.services.service01.loadbalancer.sticky.cookie'', ''true''),
     (''traefik.http.services.service01.loadbalancer.sticky.cookie.name'', ''io''),
     (''traefik.http.services.service01.loadbalancer.sticky.cookie.httponly'', ''true''),
     (''traefik.http.services.service01.loadbalancer.sticky.cookie.secure'', ''true''),
     (''traefik.http.services.service01.loadbalancer.sticky.cookie.samesite'', ''lax''),
     (''traefik.http.middlewares.socket-replaceprefix.replacepath.path'', ''/''),
     (''traefik.http.routers.socket-router.middlewares'', ''socket-replaceprefix@docker'')]"

text \<open>The options of the sticky cookie: the labels below the cookie's key, with the key cut off.\<close>

definition sticky_cookie_key :: string where
  "sticky_cookie_key = ''traefik.http.services.service01.loadbalancer.sticky.cookie.''"

definition sticky_cookie_options :: "(string \<times> string) list \<Rightarrow> (string \<times> string) list" where
  "sticky_cookie_options labels =
     map (\<lambda>(k, v). (drop (length sticky_cookie_key) k, v))
       (filter (\<lambda>(k, v). take (length sticky_cookie_key) k = sticky_cookie_key) labels)"

section \<open>The wording of the specification\<close>

text \<open>
  The field and option names the specification lists (its section 6), to compare with what
  the sources send and read.
\<close>

definition presence_record_fields :: "string list" where
  "presence_record_fields = [''nodeId'', ''health'', ''connectionCount'', ''timestamp'']"


definition configuration_surface :: "(string \<times> string) list" where
  "configuration_surface =
     [(''BACKPLANE_HOST'', ''backplane.internal''), (''BACKPLANE_PORT'', ''7000''),
      (''NODE_LISTEN_PORT'', ''8080''), (''PRESENCE_INTERVAL_MS'', ''1000''),
      (''OUTBOUND_QUEUE_LIMIT'', ''64''), (''RECONNECT_BACKOFF_MAX_MS'', ''2000'')]"

section \<open>Sample inputs\<close>

definition client_a :: socket where
  "client_a = \<lparr>socket_id = ''a''\<rparr>"

definition client_b :: socket where
  "client_b = \<lparr>socket_id = ''b''\<rparr>"

text \<open>The doubles 0 and 0.7, the second being \<open>3152519739159347 / 2 ^ 52\<close>.\<close>

definition double_0 :: draw where
  "double_0 = \<lparr>mant = 0, expo = 52\<rparr>"

definition double_0_7 :: draw where
  "double_0_7 = \<lparr>mant = 3152519739159347, expo = 52\<rparr>"

definition sample_ifaces :: "(string \<times> iface list) list" where
  "sample_ifaces =
     [(''lo'', [\<lparr>address = ''127.0.0.1'', family = ''IPv4'', internal = True\<rparr>]),
      (''eth0'', [\<lparr>address = ''fe80::1'', family = ''IPv6'', internal = False\<rparr>,
                 \<lparr>address = ''10.0.2.10'', family = ''IPv4'', internal = False\<rparr>])]"

section \<open>Invariants of the running servers\<close>

text \<open>
  Both servers register the same listener body under one event name for each socket they
  accept. In every state reached, the listeners are exactly these, one for each connected
  socket.
\<close>

definition message_listener :: "string \<Rightarrow> jsval \<Rightarrow> effect list" where
  "message_listener sid message =
     [ConsoleLog [JStr ''Message from the client:'', JStr sid, JStr ''->'', message]]"

definition listening :: "string \<Rightarrow> server \<Rightarrow> bool" where
  "listening evn s \<longleftrightarrow>
     (\<forall>sid ev. listeners s (sid, ev) =
        (if ev = evn \<and> sid \<in> socket_id ` set (connected s)
         then Some (message_listener sid) else None))"


definition wellformed :: "string \<Rightarrow> server \<Rightarrow> bool" where
  "wellformed evn s \<longleftrightarrow> distinct (map socket_id (connected s)) \<and> listening evn s"

section \<open>Facts about the server object\<close>

lemma send_packet_outbox:
  "outbox (send_packet sid' p s) sid = (if sid = sid' then outbox s sid @ [p] else outbox s sid)"
  by (simp add: send_packet_def)

lemma fold_send_fields:
  "connected (fold (\<lambda>c. send_packet (socket_id c) p) cs s) = connected s"
  "listeners (fold (\<lambda>c. send_packet (socket_id c) p) cs s) = listeners s"
  "console (fold (\<lambda>c. send_packet (socket_id c) p) cs s) = console s"
  "broadcasts (fold (\<lambda>c. send_packet (socket_id c) p) cs s) = broadcasts s"
  by (induction cs arbitrary: s) (simp_all add: send_packet_def)

lemma fold_send_outbox:
  "distinct (map socket_id cs) \<Longrightarrow>
   outbox (fold (\<lambda>c. send_packet (socket_id c) p) cs s) sid =
     (if sid \<in> socket_id ` set cs then outbox s sid @ [p] else outbox s sid)"
proof (induction cs arbitrary: s)
  case Nil
  show ?case by simp
next
  case (Cons c cs)
  from Cons.prems have d: "distinct (map socket_id cs)" and n: "socket_id c \<notin> socket_id ` set cs"
    by simp_all
  have "outbox (fold (\<lambda>c. send_packet (socket_id c) p) (c # cs) s) sid =
      (if sid \<in> socket_id ` set cs then outbox (send_packet (socket_id c) p s) sid @ [p]
       else outbox (send_packet (socket_id c) p s) sid)"
    by (simp add: Cons.IH [OF d])
  also have "\<dots> = (if sid \<in> socket_id ` set (c # cs) then outbox s sid @ [p] else outbox s sid)"
    using n by (auto simp: send_packet_outbox)
  finally show ?case .
qed

lemma io_emit_fields:
  "connected (io_emit ev arg s) = connected s"
  "listeners (io_emit ev arg s) = listeners s"
  "console (io_emit ev arg s) = console s"
  "broadcasts (io_emit ev arg s) = broadcasts s @ [(ev, arg)]"
  by (simp_all add: io_emit_def adapter_broadcast_def fold_send_fields)

lemma io_emit_outbox:
  "distinct (map socket_id (connected s)) \<Longrightarrow>
   outbox (io_emit ev arg s) sid =
     (if sid \<in> socket_id ` set (connected s) then outbox s sid @ [(ev, arg)] else outbox s sid)"
  by (simp add: io_emit_def adapter_broadcast_def fold_send_outbox)

lemma adapter_onmessage_fields:
  "connected (adapter_onmessage p s) = connected s"
  "listeners (adapter_onmessage p s) = listeners s"
  "console (adapter_onmessage p s) = console s"
  "broadcasts (adapter_onmessage p s) = broadcasts s"
  by (simp_all add: adapter_onmessage_def adapter_broadcast_def fold_send_fields)

lemma distinct_add_socket:
  "distinct (map socket_id (connected s)) \<Longrightarrow> distinct (map socket_id (connected (add_socket c s)))"
  by (auto simp: add_socket_def distinct_map_filter)

lemma distinct_on_disconnect:
  "distinct (map socket_id (connected s)) \<Longrightarrow> distinct (map socket_id (connected (on_disconnect sid s)))"
  by (simp add: on_disconnect_def distinct_map_filter)

lemma perform_connected: "connected (perform e s) = connected s"
  by (cases e) (simp_all add: console_log_def io_emit_fields)

lemma fold_perform_connected: "connected (fold perform es s) = connected s"
  by (induction es arbitrary: s) (simp_all add: perform_connected)

lemma on_packet_connected: "connected (on_packet sid ev arg s) = connected s"
  by (simp add: on_packet_def fold_perform_connected split: option.split)

lemma connection_handler_connected: "connected (connection_handler c s) = connected s"
  by (simp add: connection_handler_def io_emit_fields client_on_def console_log_def)

lemma e2e_step_distinct:
  "distinct (map socket_id (connected s)) \<Longrightarrow> distinct (map socket_id (connected (e2e_step e s)))"
  by (cases e)
     (simp_all add: connection_handler_connected distinct_add_socket on_packet_connected
        distinct_on_disconnect)

lemma testMsg_listener_eq: "testMsg_listener c = message_listener (socket_id c)"
  by (rule ext) (simp add: testMsg_listener_def message_listener_def)

lemma test000_listener_eq: "test000_listener c = message_listener (socket_id c)"
  by (rule ext) (simp add: test000_listener_def message_listener_def)

lemma listening_start: "listening evn server_start"
  by (simp add: listening_def server_start_def)

lemma listening_register:
  "listening evn s \<Longrightarrow>
   listening evn (client_on c evn (message_listener (socket_id c)) (console_log args (add_socket c s)))"
  by (auto simp: listening_def client_on_def console_log_def add_socket_def)

lemma listening_io_emit: "listening evn s \<Longrightarrow> listening evn (io_emit ev arg s)"
  by (simp add: listening_def io_emit_fields)

lemma listening_console_log: "listening evn s \<Longrightarrow> listening evn (console_log args s)"
  by (simp add: listening_def console_log_def)

lemma listening_on_disconnect: "listening evn s \<Longrightarrow> listening evn (on_disconnect sid s)"
  by (auto simp: listening_def on_disconnect_def)

lemma on_packet_listening:
  "listening evn s \<Longrightarrow>
   on_packet sid ev arg s =
     (if ev = evn \<and> sid \<in> socket_id ` set (connected s)
      then console_log [JStr ''Message from the client:'', JStr sid, JStr ''->'', arg] s else s)"
  by (simp add: listening_def on_packet_def message_listener_def)

lemma listening_on_packet: "listening evn s \<Longrightarrow> listening evn (on_packet sid ev arg s)"
  by (simp add: on_packet_listening listening_console_log)

lemma e2e_step_listening: "listening ''testMsg'' s \<Longrightarrow> listening ''testMsg'' (e2e_step e s)"
  by (cases e)
     (simp_all add: connection_handler_def testMsg_listener_eq listening_io_emit
        listening_register listening_on_packet listening_on_disconnect)

lemma e2e_step_wellformed: "wellformed ''testMsg'' s \<Longrightarrow> wellformed ''testMsg'' (e2e_step e s)"
  by (simp add: wellformed_def e2e_step_listening e2e_step_distinct)

lemma e2e_fold_wellformed:
  "wellformed ''testMsg'' s \<Longrightarrow> wellformed ''testMsg'' (fold e2e_step es s)"
  by (induction es arbitrary: s) (simp_all add: e2e_step_wellformed)

lemma e2e_run_wellformed: "wellformed ''testMsg'' (e2e_run es)"
  unfolding e2e_run_def
  by (rule e2e_fold_wellformed) (simp add: wellformed_def listening_start, simp add: server_start_def)

lemma interval_callback_fields:
  "connected (interval_callback ip s) = connected s"
  "listeners (interval_callback ip s) = listeners s"
  "console (interval_callback ip s) = console s @ [[JStr (log0 ip)]]"
  "broadcasts (interval_callback ip s) = broadcasts s @ [(''okok'', JStr (log0 ip))]"
  by (simp_all add: interval_callback_def io_emit_fields console_log_def)

lemma tutorial_connection_handler_connected:
  "connected (tutorial_connection_handler c s) = connected s"
  by (simp add: tutorial_connection_handler_def client_on_def console_log_def)

lemma tutorial_step_wellformed:
  "wellformed ''test000'' (tut_io p) \<Longrightarrow> wellformed ''test000'' (tut_io (tutorial_step e p))"
proof (cases e)
  case (Connect c)
  assume "wellformed ''test000'' (tut_io p)"
  then show ?thesis
    by (simp add: Connect wellformed_def tutorial_connection_handler_connected
          distinct_add_socket)
       (simp add: tutorial_connection_handler_def test000_listener_eq listening_register)
next
  case (Packet sid ev arg)
  assume "wellformed ''test000'' (tut_io p)"
  then show ?thesis
    by (simp add: Packet wellformed_def on_packet_connected listening_on_packet)
next
  case (Disconnect sid)
  assume "wellformed ''test000'' (tut_io p)"
  then show ?thesis
    by (simp add: Disconnect wellformed_def distinct_on_disconnect listening_on_disconnect)
next
  case Tick
  assume "wellformed ''test000'' (tut_io p)"
  then show ?thesis
    by (simp add: Tick wellformed_def interval_callback_fields listening_def)
next
  case (Peer ev arg)
  assume "wellformed ''test000'' (tut_io p)"
  then show ?thesis
    by (simp add: Peer wellformed_def adapter_onmessage_fields listening_def)
qed

lemma tutorial_run_wellformed:
  "wellformed ''test000'' (tut_io p) \<Longrightarrow> wellformed ''test000'' (tut_io (tutorial_run es p))"
  unfolding tutorial_run_def
  by (induction es arbitrary: p) (simp_all add: tutorial_step_wellformed)

lemma tutorial_boot_wellformed: "wellformed ''test000'' (tut_io (tutorial_boot ip rnd env))"
  by (simp add: tutorial_boot_def wellformed_def listening_start) (simp add: server_start_def)

lemma tutorial_reached_wellformed:
  "wellformed ''test000'' (tut_io (tutorial_run es (tutorial_boot ip rnd env)))"
  by (rule tutorial_run_wellformed) (rule tutorial_boot_wellformed)

section \<open>Handlers on states reached\<close>

lemma connection_handler_outbox:
  "distinct (map socket_id (connected s)) \<Longrightarrow>
   outbox (connection_handler c s) sid =
     (if sid \<in> socket_id ` set (connected s)
      then outbox s sid @ [(''broadcast'', JStr ''A broadcast message'')] else outbox s sid)"
  by (simp add: connection_handler_def io_emit_outbox client_on_def console_log_def)

lemma connection_handler_broadcasts:
  "broadcasts (connection_handler c s) = broadcasts s @ [(''broadcast'', JStr ''A broadcast message'')]"
  by (simp add: connection_handler_def io_emit_fields client_on_def console_log_def)

lemma add_socket_fields:
  "outbox (add_socket c s) = outbox s"
  "broadcasts (add_socket c s) = broadcasts s"
  "console (add_socket c s) = console s"
  "c \<in> set (connected (add_socket c s))"
  by (simp_all add: add_socket_def)

lemma on_packet_wellformed:
  "wellformed evn s \<Longrightarrow>
   on_packet sid ev arg s =
     (if ev = evn \<and> sid \<in> socket_id ` set (connected s)
      then console_log [JStr ''Message from the client:'', JStr sid, JStr ''->'', arg] s else s)"
  by (simp add: wellformed_def on_packet_listening)

lemma tutorial_step_constants:
  "tut_privateIp (tutorial_step e p) = tut_privateIp p"
  "tut_interval (tutorial_step e p) = tut_interval p"
  "tut_adapter (tutorial_step e p) = tut_adapter p"
  "tut_listen (tutorial_step e p) = tut_listen p"
  by (cases e; simp)+

lemma tutorial_run_privateIp: "tut_privateIp (tutorial_run es p) = tut_privateIp p"
  unfolding tutorial_run_def
  by (induction es arbitrary: p) (simp_all add: tutorial_step_constants)

lemma tutorial_run_interval: "tut_interval (tutorial_run es p) = tut_interval p"
  unfolding tutorial_run_def
  by (induction es arbitrary: p) (simp_all add: tutorial_step_constants)

lemma tutorial_step_due:
  "tut_due (tutorial_step e p) = tut_due p + (if e = Tick then tut_interval p else 0)"
  by (cases e) simp_all

lemma tutorial_run_due:
  "tut_due (tutorial_run es p) = tut_due p + int (count_list es Tick) * tut_interval p"
  unfolding tutorial_run_def
  by (induction es arbitrary: p) (simp_all add: tutorial_step_due tutorial_step_constants algebra_simps)

lemma interval_callback_outbox:
  "distinct (map socket_id (connected s)) \<Longrightarrow>
   outbox (interval_callback ip s) sid =
     (if sid \<in> socket_id ` set (connected s)
      then outbox s sid @ [(''okok'', JStr (log0 ip))] else outbox s sid)"
  by (simp add: interval_callback_def io_emit_outbox console_log_def)

subsection \<open>The product of doubles\<close>

lemma bits_le: "n < 2 ^ k \<Longrightarrow> bits n \<le> k"
proof (induction k arbitrary: n)
  case 0
  then show ?case by (simp add: bits.simps)
next
  case (Suc k)
  show ?case
  proof (cases "n = 0")
    case True
    then show ?thesis by (simp add: bits.simps)
  next
    case False
    from Suc.prems have "n div 2 < 2 ^ k" by simp
    then have "bits (n div 2) \<le> k" by (rule Suc.IH)
    with False show ?thesis by (subst bits.simps) simp
  qed
qed

text \<open>Rounding moves a number by half a unit of the digits kept, at most.\<close>

lemma round_even_near:
  "2 * round_even s n \<le> 2 * n + 2 ^ s" "2 * n \<le> 2 * round_even s n + 2 ^ s"
proof -
  define P :: nat where "P = 2 ^ s"
  define q where "q = n div P"
  define r where "r = n mod P"
  have r: "r < P"
    by (simp add: r_def P_def)
  note n = div_mult_mod_eq [of n P, symmetric, folded q_def r_def]
  have up: "(q + 1) * P = q * P + P" by (simp add: algebra_simps)
  show "2 * round_even s n \<le> 2 * n + 2 ^ s"
    unfolding round_even_def Let_def P_def [symmetric] q_def [symmetric] r_def [symmetric]
    using n r up by auto
  show "2 * n \<le> 2 * round_even s n + 2 ^ s"
    unfolding round_even_def Let_def P_def [symmetric] q_def [symmetric] r_def [symmetric]
    using n r up by auto
qed

text \<open>The product of a double below 1 with 10 loses 4 digits at most.\<close>

lemma times10_near:
  assumes "mant d < 2 ^ 53"
  shows "times10 d \<le> 10 * mant d + 8" "10 * mant d \<le> times10 d + 8"
proof -
  have "10 * mant d < 2 ^ 57" using assms by simp
  then have "bits (10 * mant d) \<le> 57" by (rule bits_le)
  then have "bits (10 * mant d) - 53 \<le> 4" by simp
  then have "(2::nat) ^ (bits (10 * mant d) - 53) \<le> 2 ^ 4"
    by (rule power_increasing) simp
  then have p: "(2::nat) ^ (bits (10 * mant d) - 53) \<le> 16" by simp
  show "times10 d \<le> 10 * mant d + 8"
    using round_even_near(1) [where s = "bits (10 * mant d) - 53" and n = "10 * mant d"] p
    by (simp add: times10_def)
  show "10 * mant d \<le> times10 d + 8"
    using round_even_near(2) [where s = "bits (10 * mant d) - 53" and n = "10 * mant d"] p
    by (simp add: times10_def)
qed

lemma randomOffset_range:
  assumes "mant d < 2 ^ 53" "mant d < 2 ^ expo d"
  shows "0 \<le> randomOffset d" "randomOffset d \<le> 9"
proof -
  show "0 \<le> randomOffset d" by (simp add: randomOffset_def)
  have "10 * mant d + 10 \<le> 10 * 2 ^ expo d" using assms(2) by simp
  with times10_near(1) [OF assms(1)] have "times10 d < 10 * 2 ^ expo d" by simp
  then have "times10 d div 2 ^ expo d < 10" by (rule less_mult_imp_div_less)
  then show "randomOffset d \<le> 9" by (simp add: randomOffset_def)
qed

lemma randomOffset_eqD:
  assumes "mant d < 2 ^ 53" "randomOffset d = k"
  shows "k * 2 ^ expo d \<le> int (10 * mant d) + 8" "int (10 * mant d) < (k + 1) * 2 ^ expo d + 8"
proof -
  define R where "R = times10 d"
  define P :: nat where "P = 2 ^ expo d"
  define q where "q = R div P"
  define r where "r = R mod P"
  have r: "r < P" by (simp add: r_def P_def)
  have R: "R = q * P + r" by (simp add: q_def r_def)
  have k: "k = int q" using assms(2) by (simp add: randomOffset_def R_def P_def q_def)
  have kP: "k * 2 ^ expo d = int (q * P)" by (simp add: k P_def)
  have kP1: "(k + 1) * 2 ^ expo d = int (q * P + P)" by (simp add: k P_def algebra_simps)
  from times10_near [OF assms(1)] have n: "R \<le> 10 * mant d + 8" "10 * mant d \<le> R + 8"
    by (simp_all add: R_def)
  show "k * 2 ^ expo d \<le> int (10 * mant d) + 8"
    unfolding kP using n(1) R by linarith
  show "int (10 * mant d) < (k + 1) * 2 ^ expo d + 8"
    unfolding kP1 using n(2) R r by linarith
qed

lemma randomOffset_eqI:
  assumes "mant d < 2 ^ 53"
    and "k * 2 ^ expo d + 8 \<le> int (10 * mant d)" "int (10 * mant d) + 8 < (k + 1) * 2 ^ expo d"
  shows "randomOffset d = k"
proof -
  define R where "R = times10 d"
  from times10_near [OF assms(1)] have n: "R \<le> 10 * mant d + 8" "10 * mant d \<le> R + 8"
    by (simp_all add: R_def)
  have lo: "0 \<le> int R - k * 2 ^ expo d" using assms(2) n(2) by linarith
  have hi: "int R - k * 2 ^ expo d < 2 ^ expo d" using assms(3) n(1) by (simp add: algebra_simps)
  have "int R = 2 ^ expo d * k + (int R - k * 2 ^ expo d)" by simp
  then have "int R div 2 ^ expo d = k" using lo hi by (rule int_div_pos_eq)
  then show ?thesis by (simp add: randomOffset_def R_def zdiv_int)
qed

text \<open>Unfolding the servers on a given list of events.\<close>

lemmas evaluate =
  e2e_run_def tutorial_run_def tutorial_boot_def server_start_def connection_handler_def
  tutorial_connection_handler_def interval_callback_def add_socket_def on_packet_def
  on_disconnect_def io_emit_def adapter_broadcast_def send_packet_def client_on_def
  console_log_def testMsg_listener_def test000_listener_def client_on_connect_def
  client_a_def client_b_def log0_def adapter_onmessage_def

text \<open>Computing the interval of a given draw.\<close>

lemmas compute_interval =
  intervalOffset_def randomOffset_def times10_def round_even_def bits.simps Let_def
  double_0_def double_0_7_def

subsection \<open>The packets sent are the server's own and those of its peers\<close>













subsection \<open>The deployment file\<close>

text \<open>
  The sticky cookie the router is told to set has a name and three flags, and no other
  option: no time to live.
\<close>

lemma sticky_cookie_options_deployed:
  "sticky_cookie_options socket_server_labels =
     [(''name'', ''io''), (''httponly'', ''true''), (''secure'', ''true''), (''samesite'', ''lax'')]"
  by (simp add: sticky_cookie_options_def socket_server_labels_def sticky_cookie_key_def)

section \<open>The claims\<close>

text \<open>
  C1, as stated, fails. Clients \<open>a\<close> and \<open>b\<close> are connected to the e2esimple server and \<open>a\<close>
  sends what \<^verbatim>\<open>client.js\<close> sends. The outbox of \<open>b\<close> is what it was, the one broadcast of
  its own connection; nothing is handed to the adapter; the message is on the console.
\<close>

theorem client_message_reaches_no_subscriber:
  "socket_id client_b \<in> socket_id ` set (connected (e2e_run [Connect client_a, Connect client_b])) \<and>
   outbox (e2e_run [Connect client_a, Connect client_b, client_on_connect ''a'']) ''b'' =
     outbox (e2e_run [Connect client_a, Connect client_b]) ''b'' \<and>
   outbox (e2e_run [Connect client_a, Connect client_b, client_on_connect ''a'']) ''b'' =
     [(''broadcast'', JStr ''A broadcast message'')] \<and>
   broadcasts (e2e_run [Connect client_a, Connect client_b, client_on_connect ''a'']) =
     broadcasts (e2e_run [Connect client_a, Connect client_b]) \<and>
   console (e2e_run [Connect client_a, Connect client_b, client_on_connect ''a'']) =
     console (e2e_run [Connect client_a, Connect client_b]) @
       [[JStr ''Message from the client:'', JStr ''a'', JStr ''->'', JStr ''a message'']]"
  by (simp add: evaluate)

text \<open>
  C1, amended. In every state either server reaches, a packet from a client is handled
  by a local side effect alone: no outbox changes, nothing is handed to the adapter, and
  the console gains the line \<^verbatim>\<open>Message from the client: <id> -> <message>\<close> exactly when the
  event is the one listened for (\<^verbatim>\<open>testMsg\<close> in e2esimple, \<^verbatim>\<open>test000\<close> in the tutorial
  server) and the sender is connected.
\<close>

theorem client_message_only_logged:
  "outbox (e2e_step (Packet sid ev arg) (e2e_run es)) = outbox (e2e_run es) \<and>
   broadcasts (e2e_step (Packet sid ev arg) (e2e_run es)) = broadcasts (e2e_run es) \<and>
   console (e2e_step (Packet sid ev arg) (e2e_run es)) =
     (if ev = ''testMsg'' \<and> sid \<in> socket_id ` set (connected (e2e_run es))
      then console (e2e_run es) @
        [[JStr ''Message from the client:'', JStr sid, JStr ''->'', arg]]
      else console (e2e_run es)) \<and>
   outbox (tut_io (tutorial_step (Packet sid ev arg) (tutorial_run es' (tutorial_boot ip rnd env)))) =
     outbox (tut_io (tutorial_run es' (tutorial_boot ip rnd env))) \<and>
   broadcasts (tut_io (tutorial_step (Packet sid ev arg) (tutorial_run es' (tutorial_boot ip rnd env)))) =
     broadcasts (tut_io (tutorial_run es' (tutorial_boot ip rnd env))) \<and>
   console (tut_io (tutorial_step (Packet sid ev arg) (tutorial_run es' (tutorial_boot ip rnd env)))) =
     (if ev = ''test000'' \<and>
         sid \<in> socket_id ` set (connected (tut_io (tutorial_run es' (tutorial_boot ip rnd env))))
      then console (tut_io (tutorial_run es' (tutorial_boot ip rnd env))) @
        [[JStr ''Message from the client:'', JStr sid, JStr ''->'', arg]]
      else console (tut_io (tutorial_run es' (tutorial_boot ip rnd env))))"
  by (simp add: on_packet_wellformed [OF e2e_run_wellformed]
        on_packet_wellformed [OF tutorial_reached_wellformed] console_log_def)

theorem client_message_only_logged_witness:
  "outbox (e2e_run [Connect client_a, Connect client_b, client_on_connect ''a'']) ''b'' =
     [(''broadcast'', JStr ''A broadcast message'')] \<and>
   console (tut_io (tutorial_run [Connect client_a, Packet ''a'' ''test000'' (JNum 7)]
       (tutorial_boot ''10.0.2.10'' double_0 Map.empty))) =
     [[JStr ''New incoming Connection from'', JStr ''a''],
      [JStr ''Message from the client:'', JStr ''a'', JStr ''->'', JNum 7]]"
  using client_message_only_logged [where sid = "''a''" and ev = "''testMsg''"
      and arg = "JStr ''a message''" and es = "[Connect client_a, Connect client_b]"
      and es' = "[Connect client_a]" and ip = "''10.0.2.10''" and rnd = double_0 and env = Map.empty]
    client_message_only_logged [where sid = "''a''" and ev = "''test000''" and arg = "JNum 7"
      and es = "[]" and es' = "[Connect client_a]" and ip = "''10.0.2.10''" and rnd = double_0
      and env = Map.empty]
  by (simp add: evaluate)




text \<open>
  C4, as stated, fails. The tutorial server started on a host with the address
  \<open>10.0.2.10\<close> accepts client \<open>a\<close> and ticks: what \<open>a\<close> receives, on its socket, is the
  packet \<^verbatim>\<open>okok\<close> with a string, which has none of the four fields of the presence record.
\<close>

theorem presence_tick_sends_a_string:
  "tutorial_start sample_ifaces double_0 Map.empty = Inr (tutorial_boot ''10.0.2.10'' double_0 Map.empty) \<and>
   outbox (tut_io (tutorial_run [Connect client_a, Tick] (tutorial_boot ''10.0.2.10'' double_0 Map.empty))) ''a'' =
     [(''okok'', JStr ''I am the host: 10.0.2.10. I am healty.'')] \<and>
   map (js_get (JStr ''I am the host: 10.0.2.10. I am healty.'')) presence_record_fields =
     [None, None, None, None]"
  by (simp add: evaluate tutorial_start_def privateIp_def sample_ifaces_def presence_record_fields_def)

text \<open>
  C4, amended. In every state the tutorial server reaches, a tick writes the string
  \<^verbatim>\<open>I am the host: <privateIp>. I am healty.\<close> to the console and emits it as the argument
  of one \<^verbatim>\<open>okok\<close> packet with \<^verbatim>\<open>io.emit\<close>: the packet goes to every connected socket and to
  the adapter, the way client packets are delivered, and to no channel of its own. The
  string has no field: it names the host address and nothing else.
\<close>

theorem presence_tick_emits_okok:
  "outbox (tut_io (tutorial_step Tick (tutorial_run es (tutorial_boot ip rnd env)))) sid =
     (if sid \<in> socket_id ` set (connected (tut_io (tutorial_run es (tutorial_boot ip rnd env))))
      then outbox (tut_io (tutorial_run es (tutorial_boot ip rnd env))) sid @
        [(''okok'', JStr (''I am the host: '' @ ip @ ''. I am healty.''))]
      else outbox (tut_io (tutorial_run es (tutorial_boot ip rnd env))) sid) \<and>
   console (tut_io (tutorial_step Tick (tutorial_run es (tutorial_boot ip rnd env)))) =
     console (tut_io (tutorial_run es (tutorial_boot ip rnd env))) @
       [[JStr (''I am the host: '' @ ip @ ''. I am healty.'')]] \<and>
   broadcasts (tut_io (tutorial_step Tick (tutorial_run es (tutorial_boot ip rnd env)))) =
     broadcasts (tut_io (tutorial_run es (tutorial_boot ip rnd env))) @
       [(''okok'', JStr (''I am the host: '' @ ip @ ''. I am healty.''))] \<and>
   js_get (JStr (''I am the host: '' @ ip @ ''. I am healty.'')) field = None"
proof -
  let ?p = "tutorial_run es (tutorial_boot ip rnd env)"
  have wp: "wellformed ''test000'' (tut_io ?p)" by (rule tutorial_reached_wellformed)
  then have dp: "distinct (map socket_id (connected (tut_io ?p)))"
    by (simp add: wellformed_def)
  have ip: "tut_privateIp ?p = ip" by (simp add: tutorial_run_privateIp tutorial_boot_def)
  show ?thesis
    by (simp add: ip interval_callback_outbox [OF dp] interval_callback_fields log0_def)
qed

theorem presence_tick_emits_okok_witness:
  "outbox (tut_io (tutorial_run [Connect client_a, Tick] (tutorial_boot ''10.0.2.10'' double_0 Map.empty))) ''a'' =
     [(''okok'', JStr ''I am the host: 10.0.2.10. I am healty.'')]"
  using presence_tick_emits_okok [where sid = "''a''" and es = "[Connect client_a]"
      and ip = "''10.0.2.10''" and rnd = double_0 and env = Map.empty]
  by (simp add: evaluate)




text \<open>
  C6, as stated, fails. With every option of the specification set in the environment,
  the tutorial server starts as with an empty environment: the adapter goes to
  \<open>localhost\<close> at 6379, the server listens on 5000 and the interval is the one drawn.
\<close>

theorem specified_options_are_not_read:
  "redisAdapter_options (map_of configuration_surface) = \<lparr>host = ''localhost'', port = 6379\<rparr> \<and>
   tutorial_boot ''10.0.2.10'' double_0 (map_of configuration_surface) = tutorial_boot ''10.0.2.10'' double_0 Map.empty \<and>
   tut_listen (tutorial_boot ''10.0.2.10'' double_0 (map_of configuration_surface)) = 5000 \<and>
   tut_interval (tutorial_boot ''10.0.2.10'' double_0 (map_of configuration_surface)) = 30000"
  by (simp add: tutorial_boot_def redisAdapter_options_def redisHost_def configuration_surface_def
        socketPort_def compute_interval)

text \<open>
  C6, amended. The one key read from the environment is \<^verbatim>\<open>REDIS_HOST\<close>: two environments
  that agree on it start the same process. It gives the host of the backplane, which is
  \<open>localhost\<close> when the key is unset or empty; the port of the backplane is the constant
  6379 and the listen port the constant 5000. The deployment file sets the key to
  \<open>redis\<close>.
\<close>

theorem only_redis_host_is_read:
  "(env ''REDIS_HOST'' = env' ''REDIS_HOST'' \<longrightarrow>
      tutorial_start ifaces rnd env = tutorial_start ifaces rnd env') \<and>
   host (redisAdapter_options env) =
     (if env ''REDIS_HOST'' = None \<or> env ''REDIS_HOST'' = Some [] then ''localhost''
      else the (env ''REDIS_HOST'')) \<and>
   port (redisAdapter_options env) = 6379 \<and>
   tut_listen (tutorial_boot ip rnd env) = 5000 \<and>
   host (redisAdapter_options (map_of socket_server_environment)) = ''redis''"
  by (auto simp: tutorial_start_def tutorial_boot_def redisAdapter_options_def redisHost_def
        socketPort_def socket_server_environment_def split: option.splits sum.splits)

theorem only_redis_host_is_read_witness:
  "map_of configuration_surface ''REDIS_HOST'' = Map.empty ''REDIS_HOST'' \<and>
   tutorial_start sample_ifaces double_0 (map_of configuration_surface) =
     tutorial_start sample_ifaces double_0 Map.empty \<and>
   host (redisAdapter_options [''REDIS_HOST'' \<mapsto> ''redis-master.default.svc'']) =
     ''redis-master.default.svc''"
  using only_redis_host_is_read [where env = "map_of configuration_surface" and env' = Map.empty
      and ifaces = sample_ifaces and rnd = double_0]
    only_redis_host_is_read [where env = "[''REDIS_HOST'' \<mapsto> ''redis-master.default.svc'']"]
  by (simp add: configuration_surface_def)

text \<open>
  C9. In every state the e2esimple server reaches, accepting a connection emits one
  \<^verbatim>\<open>broadcast\<close> packet with the argument \<^verbatim>\<open>'A broadcast message'\<close>: the new client is
  among the connected sockets, the outbox of every connected socket (the new one included)
  grows by exactly this packet, no other outbox changes, and the adapter is handed the
  packet once. A packet from a client hands nothing to the adapter: the broadcast comes
  from the connection alone.
\<close>

theorem connection_emits_broadcast:
  "client \<in> set (connected (e2e_step (Connect client) (e2e_run es))) \<and>
   outbox (e2e_step (Connect client) (e2e_run es)) sid =
     (if sid \<in> socket_id ` set (connected (e2e_step (Connect client) (e2e_run es)))
      then outbox (e2e_run es) sid @ [(''broadcast'', JStr ''A broadcast message'')]
      else outbox (e2e_run es) sid) \<and>
   broadcasts (e2e_step (Connect client) (e2e_run es)) =
     broadcasts (e2e_run es) @ [(''broadcast'', JStr ''A broadcast message'')] \<and>
   broadcasts (e2e_step (Packet from ev arg) (e2e_run es)) = broadcasts (e2e_run es)"
proof -
  have w: "wellformed ''testMsg'' (e2e_run es)" by (rule e2e_run_wellformed)
  then have d: "distinct (map socket_id (connected (add_socket client (e2e_run es))))"
    by (simp add: wellformed_def distinct_add_socket)
  have 1: "client \<in> set (connected (e2e_step (Connect client) (e2e_run es)))"
    by (simp add: connection_handler_connected add_socket_fields)
  have 2: "outbox (e2e_step (Connect client) (e2e_run es)) sid =
     (if sid \<in> socket_id ` set (connected (e2e_step (Connect client) (e2e_run es)))
      then outbox (e2e_run es) sid @ [(''broadcast'', JStr ''A broadcast message'')]
      else outbox (e2e_run es) sid)"
    by (simp add: connection_handler_connected connection_handler_outbox [OF d] add_socket_fields)
  have 3: "broadcasts (e2e_step (Connect client) (e2e_run es)) =
     broadcasts (e2e_run es) @ [(''broadcast'', JStr ''A broadcast message'')]"
    by (simp add: connection_handler_broadcasts add_socket_fields)
  have 4: "broadcasts (e2e_step (Packet from ev arg) (e2e_run es)) = broadcasts (e2e_run es)"
    by (simp add: on_packet_wellformed [OF w] console_log_def)
  from 1 2 3 4 show ?thesis by blast
qed

theorem connection_emits_broadcast_witness:
  "outbox (e2e_run [Connect client_a, Connect client_b]) ''a'' =
     [(''broadcast'', JStr ''A broadcast message''), (''broadcast'', JStr ''A broadcast message'')] \<and>
   outbox (e2e_run [Connect client_a, Connect client_b]) ''b'' =
     [(''broadcast'', JStr ''A broadcast message'')]"
  using connection_emits_broadcast [of client_b "[Connect client_a]" "''a''"]
    connection_emits_broadcast [of client_b "[Connect client_a]" "''b''"]
    connection_emits_broadcast [of client_a "[]" "''a''"]
    connection_emits_broadcast [of client_a "[]" "''b''"]
  by (simp add: e2e_run_def connection_handler_connected add_socket_def client_a_def
        client_b_def server_start_def)

text \<open>
  C10. For every draw of \<^verbatim>\<open>Math.random()\<close>, a double at least 0 and below 1, the
  offset is an integer from 0 to 9. It is \<open>k\<close> for the draws from \<open>k / 10\<close> up to
  \<open>(k + 1) / 10\<close>, ten ranges of one width, up to the rounding of the product: an offset
  \<open>k\<close> comes from a draw in the range or within 8 units of its last digit of it, and a
  draw that far inside the range gives \<open>k\<close>. The interval is \<open>(30 + offset) * 1000\<close>, from
  30000 to 39000 milliseconds: the jitter is at most 9000, less than a third of the
  interval. It is fixed when the process starts: after any events the timer has this
  interval, and it has come due once more than the ticks so far, each time the same
  interval later.
\<close>

theorem interval_fixed_at_start:
  "mant d < 2 ^ 53 \<Longrightarrow> expo d \<le> 1074 \<Longrightarrow> mant d < 2 ^ expo d \<Longrightarrow>
   0 \<le> randomOffset d \<and> randomOffset d \<le> 9 \<and>
   (randomOffset d = k \<longrightarrow>
      k * 2 ^ expo d \<le> int (10 * mant d) + 8 \<and> int (10 * mant d) < (k + 1) * 2 ^ expo d + 8) \<and>
   (k * 2 ^ expo d + 8 \<le> int (10 * mant d) \<and> int (10 * mant d) + 8 < (k + 1) * 2 ^ expo d \<longrightarrow>
      randomOffset d = k) \<and>
   intervalOffset d = (30 + randomOffset d) * 1000 \<and>
   30000 \<le> intervalOffset d \<and> intervalOffset d \<le> 39000 \<and>
   intervalOffset d - 30000 \<le> 9000 \<and> 3 * 9000 < intervalOffset d \<and>
   tut_interval (tutorial_run es (tutorial_boot ip d env)) = intervalOffset d \<and>
   tut_due (tutorial_run es (tutorial_boot ip d env)) =
     (1 + int (count_list es Tick)) * intervalOffset d"
proof -
  assume m: "mant d < 2 ^ 53" and below: "mant d < 2 ^ expo d"
  have lo: "0 \<le> randomOffset d" and hi: "randomOffset d \<le> 9"
    using randomOffset_range [OF m below] by simp_all
  have only_near: "randomOffset d = k \<longrightarrow>
      k * 2 ^ expo d \<le> int (10 * mant d) + 8 \<and> int (10 * mant d) < (k + 1) * 2 ^ expo d + 8"
    using randomOffset_eqD [OF m] by blast
  have inside: "k * 2 ^ expo d + 8 \<le> int (10 * mant d) \<and>
      int (10 * mant d) + 8 < (k + 1) * 2 ^ expo d \<longrightarrow> randomOffset d = k"
    using randomOffset_eqI [OF m] by blast
  have i: "intervalOffset d = (30 + randomOffset d) * 1000"
    by (simp add: intervalOffset_def)
  have b: "30000 \<le> intervalOffset d" "intervalOffset d \<le> 39000"
      "intervalOffset d - 30000 \<le> 9000" "3 * 9000 < intervalOffset d"
    using lo hi by (simp_all add: i)
  have t: "tut_interval (tutorial_run es (tutorial_boot ip d env)) = intervalOffset d"
    by (simp add: tutorial_run_interval tutorial_boot_def)
  have due: "tut_due (tutorial_run es (tutorial_boot ip d env)) =
     (1 + int (count_list es Tick)) * intervalOffset d"
    by (simp add: tutorial_run_due tutorial_boot_def algebra_simps)
  from lo hi only_near inside i b t due show ?thesis by blast
qed

theorem interval_fixed_at_start_witness:
  "mant double_0_7 < 2 ^ 53 \<and> expo double_0_7 \<le> 1074 \<and> mant double_0_7 < 2 ^ expo double_0_7 \<and>
   randomOffset double_0_7 = 7 \<and> intervalOffset double_0_7 = 37000 \<and>
   tut_due (tutorial_run [Tick, Connect client_a, Tick] (tutorial_boot ''10.0.2.10'' double_0_7 Map.empty)) =
     111000"
proof -
  have h: "mant double_0_7 < 2 ^ 53" "expo double_0_7 \<le> 1074" "mant double_0_7 < 2 ^ expo double_0_7"
    by (simp_all add: double_0_7_def)
  have e: "randomOffset double_0_7 = 7"
    by (simp add: compute_interval)
  show ?thesis
    using h e interval_fixed_at_start [OF h, where k = 7 and es = "[Tick, Connect client_a, Tick]"
        and ip = "''10.0.2.10''" and env = Map.empty]
    by simp
qed

end
